theory Spec2Isabelle
  imports Main
begin

section \<open>JavaScript values used by the sources\<close>

text \<open>
  A value of type \<open>string | undefined\<close> is a \<open>string option\<close>, \<open>None\<close> being
  \<open>undefined\<close>. A condition \<open>if (s)\<close> on such a value holds when the value is defined
  and is not the empty string; on a \<open>boolean | undefined\<close> it holds for \<open>true\<close> only.
\<close>

definition truthy :: "string option \<Rightarrow> bool" where
  "truthy s = (case s of None \<Rightarrow> False | Some v \<Rightarrow> v \<noteq> [])"

definition truthyB :: "bool option \<Rightarrow> bool" where
  "truthyB b = (case b of None \<Rightarrow> False | Some v \<Rightarrow> v)"

text \<open>\<open>s.startsWith(p)\<close>\<close>

fun startsWith :: "string \<Rightarrow> string \<Rightarrow> bool" where
  "startsWith s [] = True"
| "startsWith [] (c # p) = False"
| "startsWith (a # s) (c # p) = (a = c \<and> startsWith s p)"

text \<open>\<open>xs.join(sep)\<close> on an array of strings\<close>

fun js_join :: "string \<Rightarrow> string list \<Rightarrow> string" where
  "js_join sep [] = []"
| "js_join sep [x] = x"
| "js_join sep (x # y # ys) = x @ sep @ js_join sep (y # ys)"

text \<open>\<open>a || b\<close> on strings: the left operand unless it is undefined or empty.\<close>

definition orElse :: "string option \<Rightarrow> string \<Rightarrow> string" where
  "orElse a b = (case a of None \<Rightarrow> b | Some v \<Rightarrow> if v = [] then b else v)"

section \<open>The \<open>path\<close> module\<close>

text \<open>
  The launcher calls \<open>path.parse\<close> and \<open>path.join\<close> of the Node runtime, which are the
  POSIX or the Windows functions depending on the host. The launcher is therefore
  modelled over any pair of such functions; the theorems below hold for every one.
\<close>

record ParsedPath =
  root :: string
  dir :: string
  base :: string
  ext :: string
  name :: string

record PathModule =
  parse :: "string \<Rightarrow> ParsedPath"
  join :: "string \<Rightarrow> string \<Rightarrow> string"

text \<open>
  A model of the POSIX functions, on which the concrete scenarios are evaluated.
  \<open>posix_parse\<close> follows the runtime's function statement by statement: one scan of
  the path from its last character down to \<open>start\<close>, which skips trailing slashes,
  stops at the slash before the last component and tracks the last dot
  (\<open>startDot\<close>) and what precedes it (\<open>preDotState\<close>); then the slices. An index
  that the runtime initialises to \<open>-1\<close> is an \<open>int\<close>. \<open>posix_join\<close> puts a slash
  between two non-empty parts and normalises the result (\<open>.\<close>, \<open>..\<close> and repeated
  slashes).
\<close>

definition isSlash :: "char \<Rightarrow> bool" where
  "isSlash c = (c = CHR ''/'')"

record ParseScan =
  startDot :: int
  startPart :: int
  endIndex :: int
  matchedSlash :: bool
  preDotState :: int

text \<open>
  The loop \<open>for (; i >= start; --i)\<close>, with \<open>k\<close> iterations left: the index examined
  is \<open>i = start + k - 1\<close>.
\<close>

fun parseScan :: "string \<Rightarrow> nat \<Rightarrow> nat \<Rightarrow> ParseScan \<Rightarrow> ParseScan" where
  "parseScan path start 0 st = st"
| "parseScan path start (Suc k) st =
     (let i = start + k; code = path ! i
      in if isSlash code then
           (if \<not> matchedSlash st then st\<lparr>startPart := int i + 1\<rparr>
            else parseScan path start k st)
         else
           (let st1 = (if endIndex st = - 1
                       then st\<lparr>matchedSlash := False, endIndex := int i + 1\<rparr> else st);
                st2 = (if code = CHR ''.'' then
                         (if startDot st1 = - 1 then st1\<lparr>startDot := int i\<rparr>
                          else if preDotState st1 \<noteq> 1 then st1\<lparr>preDotState := 1\<rparr>
                          else st1)
                       else if startDot st1 \<noteq> - 1 then st1\<lparr>preDotState := - 1\<rparr>
                       else st1)
            in parseScan path start k st2))"

text \<open>\<open>path.slice(a, b)\<close> for indices \<open>0 \<le> a \<le> b\<close>.\<close>

definition slice :: "string \<Rightarrow> int \<Rightarrow> int \<Rightarrow> string" where
  "slice path a b = take (nat (b - a)) (drop (nat a) path)"

definition posix_parse :: "string \<Rightarrow> ParsedPath" where
  "posix_parse path =
     (if path = [] then \<lparr>root = [], dir = [], base = [], ext = [], name = []\<rparr>
      else
        let isAbsolute = isSlash (hd path);
            start = (if isAbsolute then 1 else 0);
            st = parseScan path start (length path - start)
                   \<lparr>startDot = - 1, startPart = 0, endIndex = - 1, matchedSlash = True,
                    preDotState = 0\<rparr>;
            start' = (if startPart st = 0 \<and> isAbsolute then 1 else startPart st);
            noExt = (startDot st = - 1 \<or> preDotState st = 0 \<or>
                     (preDotState st = 1 \<and> startDot st = endIndex st - 1 \<and>
                      startDot st = startPart st + 1))
        in \<lparr>root = (if isAbsolute then ''/'' else []),
            dir = (if 0 < startPart st then slice path 0 (startPart st - 1)
                   else if isAbsolute then ''/'' else []),
            base = (if endIndex st \<noteq> - 1 then slice path start' (endIndex st) else []),
            ext = (if endIndex st \<noteq> - 1 \<and> \<not> noExt
                   then slice path (startDot st) (endIndex st) else []),
            name = (if endIndex st \<noteq> - 1
                    then (if noExt then slice path start' (endIndex st)
                          else slice path start' (startDot st))
                    else [])\<rparr>)"

fun splitSlash :: "string \<Rightarrow> string list" where
  "splitSlash [] = [[]]"
| "splitSlash (c # cs) =
     (if isSlash c then [] # splitSlash cs
      else (case splitSlash cs of [] \<Rightarrow> [[c]] | s # ss \<Rightarrow> (c # s) # ss))"

fun normalizeSegments :: "bool \<Rightarrow> string list \<Rightarrow> string list \<Rightarrow> string list" where
  "normalizeSegments allowAboveRoot acc [] = rev acc"
| "normalizeSegments allowAboveRoot acc (s # ss) =
     (if s = [] \<or> s = ''.'' then normalizeSegments allowAboveRoot acc ss
      else if s = ''..'' then
        (case acc of
           t # ts \<Rightarrow>
             if t \<noteq> ''..'' then normalizeSegments allowAboveRoot ts ss
             else if allowAboveRoot then normalizeSegments allowAboveRoot (s # acc) ss
             else normalizeSegments allowAboveRoot acc ss
         | [] \<Rightarrow>
             if allowAboveRoot then normalizeSegments allowAboveRoot [s] ss
             else normalizeSegments allowAboveRoot [] ss)
      else normalizeSegments allowAboveRoot (s # acc) ss)"

definition posix_normalize :: "string \<Rightarrow> string" where
  "posix_normalize p =
     (if p = [] then ''.''
      else
        let isAbsolute = isSlash (hd p);
            trailingSeparator = isSlash (last p);
            q = js_join ''/'' (normalizeSegments (\<not> isAbsolute) [] (splitSlash p))
        in if q = [] then
             (if isAbsolute then ''/'' else if trailingSeparator then ''./'' else ''.'')
           else
             (if isAbsolute then ''/'' else []) @ q @ (if trailingSeparator then ''/'' else []))"

definition posix_join :: "string \<Rightarrow> string \<Rightarrow> string" where
  "posix_join a b =
     (if a = [] \<and> b = [] then ''.''
      else if a = [] then posix_normalize b
      else if b = [] then posix_normalize a
      else posix_normalize (a @ ''/'' @ b))"

definition posix :: PathModule where
  "posix = \<lparr>parse = posix_parse, join = posix_join\<rparr>"

section \<open>Launch support: debug and run in terminal\<close>

record LaunchConfiguration =
  binary :: string
  cwd :: string
  args :: "string list"

text \<open>
  The object handed to \<open>vscode.debug.startDebugging\<close>. Its keys \<open>type\<close>, \<open>name\<close>,
  \<open>request\<close>, \<open>cwd\<close>, \<open>args\<close> and \<open>program\<close> carry the prefix \<open>config_\<close> here.
\<close>

record DebugConfiguration =
  config_type :: string
  config_name :: string
  config_request :: string
  config_cwd :: string
  config_args :: "string list"
  config_program :: string
  miMode :: "string option"
  miDebuggerPath :: "string option"

text \<open>\<open>vscode.TerminalOptions\<close>, keys prefixed with \<open>term_\<close>.\<close>

record TerminalOptions =
  term_name :: string
  term_shellPath :: "string option"
  term_cwd :: "string option"

text \<open>
  Terminals and debug sessions are objects compared by identity; they are numbered.
\<close>

type_synonym Terminal = nat
type_synonym DebugSession = nat

text \<open>
  Every call the two modules make to a collaborator (the editor window, the logger, the
  file primitives and the process spawner of \<open>util\<close>, the debug service, a terminal, the
  IntelliSense provider) is recorded, in order.
\<close>

datatype event =
    ShowErrorMessage string
  | LogMessage string
  | LogMessageNoCR string
  | CheckFileExistsSync string
  | ReadFile string
  | StartDebugging "string option" DebugConfiguration
  | CreateTerminal TerminalOptions Terminal
  | SendText Terminal string
  | ShowTerminal Terminal
  | SpawnChildProcess string "string list" string
  | ReportDryRunError
  | WriteFileSync string string
  | UpdateProvider string

text \<open>
  What the launcher reads from its surroundings: \<open>process.platform\<close>, the \<open>path\<close> module,
  \<open>extension.extension?.getCompilerFullPath()\<close>, \<open>configuration.getCurrentLaunchConfiguration()\<close>,
  \<open>vscode.workspace.rootPath\<close>, \<open>vscode.workspace.workspaceFolders\<close>, the answer of
  \<open>util.checkFileExistsSync\<close> for each path, and \<open>vscode.debug.activeDebugSession\<close> as it
  is once \<open>startDebugging\<close> has settled.
\<close>

record LaunchEnv =
  platform :: string
  pathModule :: PathModule
  compilerFullPath :: "string option"
  currentLaunchConfiguration :: "LaunchConfiguration option"
  rootPath :: "string option"
  workspaceFolders :: "string list option"
  checkFileExistsSync :: "string \<Rightarrow> bool"
  activeDebugSession :: "DebugSession option"

definition launchTargetPath :: "LaunchEnv \<Rightarrow> string" where
  "launchTargetPath E =
     (case currentLaunchConfiguration E of
        Some launchConfiguration \<Rightarrow> binary launchConfiguration
      | None \<Rightarrow> [])"

definition launchCurrentDir :: "LaunchEnv \<Rightarrow> string" where
  "launchCurrentDir E =
     (case currentLaunchConfiguration E of
        Some launchConfiguration \<Rightarrow> cwd launchConfiguration
      | None \<Rightarrow> orElse (rootPath E) [])"

definition launchTargetArgs :: "LaunchEnv \<Rightarrow> string list" where
  "launchTargetArgs E =
     (case currentLaunchConfiguration E of
        Some launchConfiguration \<Rightarrow> args launchConfiguration
      | None \<Rightarrow> [])"

definition launchTargetArgsConcat :: "LaunchEnv \<Rightarrow> string" where
  "launchTargetArgsConcat E = js_join '' '' (launchTargetArgs E)"

subsection \<open>\<open>debugCurrentTarget\<close>\<close>

definition noLaunchConfigurationLog :: string where
  "noLaunchConfigurationLog =
     ''Cannot start debugging because there is no launch configuration set. '' @
     ''Define one in the settings file or use the Makefile.setLaunchConfigurationCommand''"

text \<open>
  The declarations before the existence probe: the parsed compiler path, the two
  compiler flags, the debugger type, the compiler's directory and the first guess of
  \<open>miMode\<close>. The result is \<open>(dbg, miDebuggerPath, miMode)\<close>.
\<close>

definition parsedObjPathOf :: "PathModule \<Rightarrow> string option \<Rightarrow> ParsedPath option" where
  "parsedObjPathOf P compilerPath =
     (if truthy compilerPath then map_option (parse P) compilerPath else None)"

definition initialGuess ::
  "PathModule \<Rightarrow> string option \<Rightarrow> string \<times> string option \<times> string option" where
  "initialGuess P compilerPath =
     (let parsedObjPath = parsedObjPathOf P compilerPath;
          isClangCompiler = map_option (\<lambda>pp. startsWith (name pp) ''clang'') parsedObjPath;
          isMsvcCompiler =
            (if \<not> truthyB isClangCompiler
             then map_option (\<lambda>pp. startsWith (name pp) ''cl'') parsedObjPath
             else Some False);
          dbg = (if truthyB isMsvcCompiler then ''cppvsdbg'' else ''cppdbg'');
          miDebuggerPath0 =
            (if \<not> truthyB isMsvcCompiler \<and> parsedObjPath \<noteq> None
             then map_option dir parsedObjPath else None);
          miMode0 =
            (if truthyB (map_option (\<lambda>pp. startsWith (name pp) ''clang'') parsedObjPath)
             then Some ''lldb''
             else if \<not> truthyB (map_option (\<lambda>pp. startsWith (name pp) ''cl'') parsedObjPath)
             then Some ''gdb''
             else None)
      in (dbg, miDebuggerPath0, miMode0))"

text \<open>
  "If the first chosen debugger is not installed, try the other one": the calls to
  \<open>util.checkFileExistsSync\<close> made, and \<open>miMode\<close> afterwards.
\<close>

definition probeDebugger ::
  "LaunchEnv \<Rightarrow> string option \<Rightarrow> string option \<Rightarrow> event list \<times> string option" where
  "probeDebugger E miDebuggerPath0 miMode0 =
     (case (miDebuggerPath0, miMode0) of
        (Some d, Some m) \<Rightarrow>
          if d \<noteq> [] \<and> m \<noteq> [] then
            (let debuggerPath = join (pathModule E) d m;
                 debuggerPath = (if platform E = ''win32'' then debuggerPath @ ''.exe''
                                 else debuggerPath)
             in ([CheckFileExistsSync debuggerPath],
                 if \<not> checkFileExistsSync E debuggerPath
                 then (if m = ''gdb'' then Some ''lldb'' else Some ''gdb'')
                 else Some m))
          else ([], miMode0)
      | _ \<Rightarrow> ([], miMode0))"

text \<open>The exception for lldb on macOS, and otherwise the debugger's full path.\<close>

definition finalDebuggerPath ::
  "LaunchEnv \<Rightarrow> string option \<Rightarrow> string option \<Rightarrow> string option" where
  "finalDebuggerPath E miDebuggerPath0 miMode1 =
     (if miMode1 = Some ''lldb'' \<and> platform E = ''darwin'' then None
      else
        (case (miDebuggerPath0, miMode1) of
           (Some d, Some m) \<Rightarrow>
             if d \<noteq> [] \<and> m \<noteq> [] then
               (let p = join (pathModule E) d m
                in Some (if platform E = ''win32'' then p @ ''.exe'' else p))
             else miDebuggerPath0
         | _ \<Rightarrow> miDebuggerPath0))"

text \<open>
  The debugger selection as a whole: the probes made and the three values that go
  into the debug configuration, \<open>(dbg, miMode, miDebuggerPath)\<close>.
\<close>

definition selectDebugger ::
  "LaunchEnv \<Rightarrow> event list \<times> string \<times> string option \<times> string option" where
  "selectDebugger E =
     (let (dbg, miDebuggerPath0, miMode0) = initialGuess (pathModule E) (compilerFullPath E);
          (probes, miMode1) = probeDebugger E miDebuggerPath0 miMode0
      in (probes, dbg, miMode1, finalDebuggerPath E miDebuggerPath0 miMode1))"

definition debugCurrentTarget :: "LaunchEnv \<Rightarrow> event list \<times> DebugSession option" where
  "debugCurrentTarget E =
     (if currentLaunchConfiguration E = None then
        ([ShowErrorMessage ''Currently there is no launch configuration set.'',
          LogMessage noLaunchConfigurationLog], None)
      else
        (let (probes, dbg, miMode1, miDebuggerPath1) = selectDebugger E;
             debugConfig = \<lparr>config_type = dbg,
                            config_name = ''Debug My Program'',
                            config_request = ''launch'',
                            config_cwd = ''${command:Makefile.launchCurrentDir}'',
                            config_args = launchTargetArgs E,
                            config_program = ''${command:Makefile.launchTargetPath}'',
                            miMode = miMode1,
                            miDebuggerPath = miDebuggerPath1\<rparr>;
             startFolder = (case workspaceFolders E of
                              Some (f # fs) \<Rightarrow> Some f
                            | _ \<Rightarrow> None)
         in (probes @ [StartDebugging startFolder debugConfig], activeDebugSession E)))"

subsection \<open>\<open>runCurrentTarget\<close> and the retained terminal\<close>

text \<open>
  \<open>launchTerminal\<close> is the launcher's private field. \<open>vscode.window.createTerminal\<close>
  returns a new object at each call: terminals are numbered in the order of their
  creation, \<open>terminalsCreated\<close> being the number of those made so far.
\<close>

record LaunchState =
  launchTerminal :: "Terminal option"
  terminalsCreated :: nat

definition createTerminal :: "LaunchState \<Rightarrow> Terminal \<times> LaunchState" where
  "createTerminal s = (terminalsCreated s, s\<lparr>terminalsCreated := Suc (terminalsCreated s)\<rparr>)"

text \<open>The watcher registered with \<open>vscode.window.onDidCloseTerminal\<close>.\<close>

definition onTerminalClose :: "Terminal \<Rightarrow> LaunchState \<Rightarrow> LaunchState" where
  "onTerminalClose term s =
     (if Some term = launchTerminal s then s\<lparr>launchTerminal := None\<rparr> else s)"

definition backslash :: string where
  "backslash = [CHR 0x5C]"

definition dquote :: string where
  "dquote = [CHR 0x22]"

definition cmdExe :: string where
  "cmdExe = ''C:'' @ backslash @ ''Windows'' @ backslash @ ''System32'' @ backslash @ ''cmd.exe''"

definition runCurrentTarget ::
  "LaunchEnv \<Rightarrow> LaunchState \<Rightarrow> event list \<times> LaunchState \<times> Terminal" where
  "runCurrentTarget E s =
     (let terminalOptions = \<lparr>term_name = ''Make/Launch'', term_shellPath = None, term_cwd = None\<rparr>;
          terminalOptions =
            (if platform E = ''win32''
             then terminalOptions\<lparr>term_shellPath := Some cmdExe,
                                  term_cwd := Some (launchCurrentDir E)\<rparr>
             else terminalOptions);
          (created, s1, t) =
            (case launchTerminal s of
               None \<Rightarrow>
                 (let (t, s') = createTerminal s
                  in ([CreateTerminal terminalOptions t], s'\<lparr>launchTerminal := Some t\<rparr>, t))
             | Some t \<Rightarrow> ([], s, t))
      in if currentLaunchConfiguration E = None then
           (created @ [ShowErrorMessage ''Currently there is no launch configuration set.'',
                       LogMessage noLaunchConfigurationLog], s1, t)
         else
           (let terminalCommand = dquote @ launchTargetPath E @ dquote @ '' '';
                terminalCommand = terminalCommand @ js_join '' '' (launchTargetArgs E)
            in (created @ [SendText t terminalCommand, ShowTerminal t], s1, t)))"

section \<open>Support for make operations\<close>

text \<open>
  What \<open>make.ts\<close> reads from its surroundings: the getters of the configuration
  module, \<open>process.platform\<close>, \<open>vscode.workspace.rootPath\<close>, and the answers of
  \<open>util.readFile\<close>, \<open>util.checkFileExistsSync\<close> and \<open>util.spawnChildProcess\<close>.
  \<open>fs.writeFileSync\<close> throws when the write fails: \<open>writeFileSync M file data\<close> is
  the error thrown, \<open>None\<close> when the file is written.
\<close>

datatype fragment = StdoutData string | StderrData string

text \<open>
  Modelled from the spec: \<open>util.spawnChildProcess\<close>, which is not among the sources.
  Of a spawned process the spec says that its output arrives as stdout and stderr
  fragments, that the exit callback "fires exactly once after all" the fragment
  callbacks, with the exit code and the signal, and that spawn-time errors surface "as
  a failure of the awaitable rather than a callback".
\<close>

datatype spawn_outcome =
    SpawnFails string
  | Exited "fragment list" int "string option"

record MakeEnv =
  currentTarget :: "string option"
  configurationMakeArgs :: "string list"
  configurationMakeCommand :: string
  configurationBuildLog :: "string option"
  dryRunSwitches :: "string list option"
  dryrunCache :: string
  preconfigureScript :: "string option"
  processPlatform :: string
  workspaceRootPath :: "string option"
  readFile :: "string \<Rightarrow> string option"
  fileExistsSync :: "string \<Rightarrow> bool"
  writeFileSync :: "string \<Rightarrow> string \<Rightarrow> string option"
  spawnChildProcess :: "string \<Rightarrow> string list \<Rightarrow> string \<Rightarrow> spawn_outcome"

text \<open>
  The first lines of both argument assemblies: an empty array, the current target
  pushed if there is one, the configured arguments concatenated.
\<close>

definition targetAndMakeArgs :: "MakeEnv \<Rightarrow> string list" where
  "targetAndMakeArgs M =
     (let makeArgs = [];
          makeArgs = (if truthy (currentTarget M) then makeArgs @ [the (currentTarget M)]
                      else makeArgs)
      in makeArgs @ configurationMakeArgs M)"

definition prepareBuildCurrentTarget :: "MakeEnv \<Rightarrow> event list \<times> string list" where
  "prepareBuildCurrentTarget M =
     (let makeArgs = targetAndMakeArgs M
      in ([LogMessage (''Building the current target. Command: '' @
                       configurationMakeCommand M @ '' '' @ js_join '' '' makeArgs)],
          makeArgs))"

text \<open>
  The callbacks of a spawned process, run on its fragments in order: \<open>stdout\<close> and
  \<open>stderr\<close> of \<open>buildCurrentTarget\<close> log each fragment, those of the two other
  operations append it to \<open>stdoutStr\<close> or \<open>stderrStr\<close>.
\<close>

fun logFragments :: "fragment list \<Rightarrow> event list" where
  "logFragments [] = []"
| "logFragments (StdoutData result # fs) = LogMessageNoCR result # logFragments fs"
| "logFragments (StderrData result # fs) = LogMessageNoCR result # logFragments fs"

fun collectFragments :: "string \<times> string \<Rightarrow> fragment list \<Rightarrow> string \<times> string" where
  "collectFragments (stdoutStr, stderrStr) [] = (stdoutStr, stderrStr)"
| "collectFragments (stdoutStr, stderrStr) (StdoutData result # fs) =
     collectFragments (stdoutStr @ result, stderrStr) fs"
| "collectFragments (stdoutStr, stderrStr) (StderrData result # fs) =
     collectFragments (stdoutStr, stderrStr @ result) fs"

definition buildCurrentTarget :: "MakeEnv \<Rightarrow> event list" where
  "buildCurrentTarget M =
     (let (logged, makeArgs) = prepareBuildCurrentTarget M;
          command = configurationMakeCommand M;
          workingDirectory = orElse (workspaceRootPath M) []
      in logged @ [SpawnChildProcess command makeArgs workingDirectory] @
         (case spawnChildProcess M command makeArgs workingDirectory of
            Exited fs retCode signal \<Rightarrow>
              logFragments fs @
              [LogMessage (if retCode \<noteq> 0 then ''The current target failed to build.''
                           else ''The current target built successfully.'')]
          | SpawnFails error \<Rightarrow> [LogMessage error]))"

definition parseBuild :: "MakeEnv \<Rightarrow> event list \<times> bool" where
  "parseBuild M =
     (let buildLog = configurationBuildLog M;
          (reads, buildLogContent) =
            (if truthy buildLog then ([ReadFile (the buildLog)], readFile M (the buildLog))
             else ([], None))
      in if truthy buildLogContent then
           (reads @
            [LogMessage (''Parsing the provided build log '' @ dquote @ the buildLog @ dquote @
                         '' for IntelliSense integration with CppTools...''),
             UpdateProvider (the buildLogContent)], True)
         else (reads, False))"

definition dryRunMakeArgs :: "MakeEnv \<Rightarrow> string list" where
  "dryRunMakeArgs M =
     (let makeArgs = targetAndMakeArgs M;
          makeArgs = makeArgs @ [''--dry-run'']
      in (case dryRunSwitches M of
            Some switches \<Rightarrow> makeArgs @ switches
          | None \<Rightarrow> makeArgs))"

text \<open>
  The \<open>closing\<close> callback of the dry-run: the calls it makes and the exception that
  leaves it, if any. The callback has no handler around \<open>fs.writeFileSync\<close>: when the
  write throws, \<open>ext.updateProvider\<close> is not reached.
\<close>

definition dryRunClosing ::
  "MakeEnv \<Rightarrow> string \<Rightarrow> string \<Rightarrow> int \<Rightarrow> event list \<times> string option" where
  "dryRunClosing M stdoutStr stderrStr retCode =
     (let dryrunCache = dryrunCache M;
          reported =
            (if retCode \<noteq> 0 then
               [LogMessage ''The make dry-run command failed. IntelliSense may work only partially or not at all.'',
                LogMessage stderrStr,
                ReportDryRunError]
             else [])
      in (case writeFileSync M dryrunCache stdoutStr of
            Some error \<Rightarrow> (reported @ [WriteFileSync dryrunCache stdoutStr], Some error)
          | None \<Rightarrow>
              (reported @ [WriteFileSync dryrunCache stdoutStr, UpdateProvider stdoutStr], None)))"

text \<open>
  The result is the calls made and the exception that left the \<open>closing\<close> callback
  uncaught, if any; what the spawner does with such an exception is not part of these
  sources, and the run is recorded up to it. An error of the spawn itself is caught and
  logged.
\<close>

definition parseBuildOrDryRun :: "MakeEnv \<Rightarrow> event list \<times> string option" where
  "parseBuildOrDryRun M =
     (let (parsed, done) = parseBuild M
      in if done then (parsed, None)
         else
           (let makeArgs = dryRunMakeArgs M;
                command = configurationMakeCommand M;
                workingDirectory = orElse (workspaceRootPath M) [];
                started =
                  parsed @
                  [LogMessage (''Generating the make dry-run output for parsing IntelliSense information. Command: '' @
                               command @ '' '' @ js_join '' '' makeArgs),
                   SpawnChildProcess command makeArgs workingDirectory]
            in (case spawnChildProcess M command makeArgs workingDirectory of
                  Exited fs retCode signal \<Rightarrow>
                    (let (stdoutStr, stderrStr) = collectFragments ([], []) fs;
                         (closed, thrown) = dryRunClosing M stdoutStr stderrStr retCode
                     in (started @ closed, thrown))
                | SpawnFails error \<Rightarrow> (started @ [LogMessage error], None))))"

definition runPreconfigureScript :: "MakeEnv \<Rightarrow> event list" where
  "runPreconfigureScript M =
     (let script = preconfigureScript M;
          probes = (if truthy script then [CheckFileExistsSync (the script)] else [])
      in if \<not> truthy script \<or> \<not> fileExistsSync M (the script) then
           probes @
           [ShowErrorMessage ''Could not find pre-configure script.'',
            LogMessage (''Make sure a pre-configuration script path is defined with '' @
                        ''makefile.preconfigureScript and that it exists on disk.'')]
         else
           (let (runCommand, scriptArgs) =
                  (if processPlatform M = ''win32'' then (''cmd'', [''/c'', the script])
                   else (''/bin/bash'', [''-c'', dquote @ ''source '' @ the script @ dquote]));
                workingDirectory = orElse (workspaceRootPath M) []
            in probes @ [SpawnChildProcess runCommand scriptArgs workingDirectory] @
               (case spawnChildProcess M runCommand scriptArgs workingDirectory of
                  Exited fs retCode signal \<Rightarrow>
                    (let (stdoutStr, stderrStr) = collectFragments ([], []) fs
                     in if retCode = 0 then [LogMessage ''The preconfigure script run successfully.'']
                        else [LogMessage ''The preconfigure script failed. This project may not configure successfully.'',
                              LogMessage stderrStr])
                | SpawnFails error \<Rightarrow> [LogMessage error])))"

section \<open>Observations on a run, and example hosts\<close>

text \<open>
  What the theorems read off a recorded run: the configuration handed to
  \<open>startDebugging\<close>, the paths probed, the terminals created and those written to or
  shown, the processes spawned, the writes to the dry-run cache together with the
  updates of the provider, and the stdout of a process.
\<close>

fun startedConfig :: "event list \<Rightarrow> DebugConfiguration option" where
  "startedConfig [] = None"
| "startedConfig (StartDebugging f c # es) = Some c"
| "startedConfig (e # es) = startedConfig es"

fun probedPaths :: "event list \<Rightarrow> string list" where
  "probedPaths [] = []"
| "probedPaths (CheckFileExistsSync p # es) = p # probedPaths es"
| "probedPaths (e # es) = probedPaths es"

fun terminalsMade :: "event list \<Rightarrow> Terminal list" where
  "terminalsMade [] = []"
| "terminalsMade (CreateTerminal opts t # es) = t # terminalsMade es"
| "terminalsMade (e # es) = terminalsMade es"

fun terminalsUsed :: "event list \<Rightarrow> Terminal list" where
  "terminalsUsed [] = []"
| "terminalsUsed (SendText t x # es) = t # terminalsUsed es"
| "terminalsUsed (ShowTerminal t # es) = t # terminalsUsed es"
| "terminalsUsed (e # es) = terminalsUsed es"

fun spawned :: "event list \<Rightarrow> (string \<times> string list \<times> string) list" where
  "spawned [] = []"
| "spawned (SpawnChildProcess command as wd # es) = (command, as, wd) # spawned es"
| "spawned (e # es) = spawned es"

fun cacheAndProvider :: "event list \<Rightarrow> event list" where
  "cacheAndProvider [] = []"
| "cacheAndProvider (WriteFileSync f x # es) = WriteFileSync f x # cacheAndProvider es"
| "cacheAndProvider (UpdateProvider x # es) = UpdateProvider x # cacheAndProvider es"
| "cacheAndProvider (e # es) = cacheAndProvider es"

fun stdoutOf :: "fragment list \<Rightarrow> string" where
  "stdoutOf [] = []"
| "stdoutOf (StdoutData x # fs) = x @ stdoutOf fs"
| "stdoutOf (StderrData x # fs) = stdoutOf fs"

text \<open>The suffix that both path computations of \<open>debugCurrentTarget\<close> add on Windows.\<close>

definition withExe :: "LaunchEnv \<Rightarrow> string \<Rightarrow> string" where
  "withExe E p = (if platform E = ''win32'' then p @ ''.exe'' else p)"

definition otherMode :: "string \<Rightarrow> string" where
  "otherMode m = (if m = ''gdb'' then ''lldb'' else ''gdb'')"

text \<open>
  The retained handle, when there is one, is a terminal that the window has created.
\<close>

definition handleValid :: "LaunchState \<Rightarrow> bool" where
  "handleValid s = (case launchTerminal s of None \<Rightarrow> True | Some t \<Rightarrow> t < terminalsCreated s)"

text \<open>
  The target as the argument lists take it (an undefined or empty target adds nothing)
  and the dry-run switches (undefined adds nothing).
\<close>

definition targetPart :: "MakeEnv \<Rightarrow> string list" where
  "targetPart M = (case currentTarget M of None \<Rightarrow> [] | Some t \<Rightarrow> if t = [] then [] else [t])"

definition switchesPart :: "MakeEnv \<Rightarrow> string list" where
  "switchesPart M = (case dryRunSwitches M of None \<Rightarrow> [] | Some sw \<Rightarrow> sw)"

text \<open>
  A POSIX host with a launch configuration, for a given platform name, compiler path
  and list of files present; the debug configuration expected for it; and a make
  environment for a given build log, pre-configure script, file contents and outcome of
  every spawned process, in which every write succeeds.
\<close>

definition exampleHost :: "string \<Rightarrow> string \<Rightarrow> string list \<Rightarrow> LaunchEnv" where
  "exampleHost os compiler installed =
     \<lparr>platform = os, pathModule = posix, compilerFullPath = Some compiler,
      currentLaunchConfiguration = Some \<lparr>binary = ''/w/a.out'', cwd = ''/w'', args = [''-v'']\<rparr>,
      rootPath = Some ''/w'', workspaceFolders = Some [''/w''],
      checkFileExistsSync = (\<lambda>p. p \<in> set installed), activeDebugSession = Some 0\<rparr>"

definition exampleConfig :: "string \<Rightarrow> string option \<Rightarrow> string option \<Rightarrow> DebugConfiguration" where
  "exampleConfig dbg mode debugger =
     \<lparr>config_type = dbg, config_name = ''Debug My Program'', config_request = ''launch'',
      config_cwd = ''${command:Makefile.launchCurrentDir}'', config_args = [''-v''],
      config_program = ''${command:Makefile.launchTargetPath}'',
      miMode = mode, miDebuggerPath = debugger\<rparr>"

definition exampleMake ::
  "string option \<Rightarrow> string option \<Rightarrow> (string \<times> string) list \<Rightarrow> spawn_outcome \<Rightarrow> MakeEnv" where
  "exampleMake buildLog script files outcome =
     \<lparr>currentTarget = Some ''all'', configurationMakeArgs = [''-j4''],
      configurationMakeCommand = ''make'', configurationBuildLog = buildLog,
      dryRunSwitches = Some [''--always-make'', ''--keep-going''],
      dryrunCache = ''/w/dryrun.log'', preconfigureScript = script,
      processPlatform = ''linux'', workspaceRootPath = Some ''/w'',
      readFile = map_of files, fileExistsSync = (\<lambda>p. p \<in> fst ` set files),
      writeFileSync = (\<lambda>file data. None),
      spawnChildProcess = (\<lambda>command as wd. outcome)\<rparr>"

text \<open>The same environment without a build log, in which every write fails.\<close>

definition exampleMakeNoCache :: "spawn_outcome \<Rightarrow> MakeEnv" where
  "exampleMakeNoCache outcome =
     (exampleMake None None [] outcome)
       \<lparr>writeFileSync := (\<lambda>file data. Some ''ENOENT: no such file or directory'')\<rparr>"

section \<open>The debugger selection\<close>

lemma probeDebugger_cases:
  "probeDebugger E p0 m0 = ([], m0) \<or>
   (\<exists>d m. p0 = Some d \<and> m0 = Some m \<and> d \<noteq> [] \<and> m \<noteq> [] \<and>
      probeDebugger E p0 m0 =
        ([CheckFileExistsSync (withExe E (join (pathModule E) d m))],
         if checkFileExistsSync E (withExe E (join (pathModule E) d m)) then Some m
         else Some (otherMode m)))"
  by (auto simp: probeDebugger_def withExe_def otherMode_def Let_def split: option.splits)

lemma startedConfig_probes:
  "probeDebugger E p0 m0 = (probes, m) \<Longrightarrow>
   startedConfig (probes @ [StartDebugging f c]) = Some c"
  using probeDebugger_cases [of E p0 m0] by auto

lemma probedPaths_probes:
  "probeDebugger E p0 m0 = (probes, m) \<Longrightarrow>
   probedPaths (probes @ [StartDebugging f c]) = probedPaths probes"
  using probeDebugger_cases [of E p0 m0] by auto

lemma probeDebugger_kept:
  assumes "probeDebugger E p0 m0 = (probes, m)"
    and "\<forall>q \<in> set (probedPaths probes). checkFileExistsSync E q"
  shows "m = m0"
  using probeDebugger_cases [of E p0 m0] assms by auto

lemma probeDebugger_missing:
  assumes "d \<noteq> []" and "m \<noteq> []"
    and "\<not> checkFileExistsSync E (withExe E (join (pathModule E) d m))"
  shows "probeDebugger E (Some d) (Some m) =
     ([CheckFileExistsSync (withExe E (join (pathModule E) d m))], Some (otherMode m))"
  using assms by (simp add: probeDebugger_def withExe_def otherMode_def Let_def)

lemma finalDebuggerPath_Some:
  assumes "d \<noteq> []" and "m \<noteq> []"
  shows "finalDebuggerPath E (Some d) (Some m) =
     (if m = ''lldb'' \<and> platform E = ''darwin'' then None
      else Some (withExe E (join (pathModule E) d m)))"
  using assms by (simp add: finalDebuggerPath_def withExe_def Let_def)

lemma finalDebuggerPath_None:
  "finalDebuggerPath E (Some d) m = None \<Longrightarrow> m = Some ''lldb'' \<and> platform E = ''darwin''"
  by (auto simp: finalDebuggerPath_def Let_def split: if_splits option.splits)

lemma finalDebuggerPath_darwin:
  "platform E = ''darwin'' \<Longrightarrow> finalDebuggerPath E p0 (Some ''lldb'') = None"
  by (simp add: finalDebuggerPath_def)

lemma otherMode_nonempty: "otherMode m \<noteq> []"
  by (simp add: otherMode_def)

text \<open>
  With a launch configuration set, the run of \<open>debugCurrentTarget\<close> is the probes of the
  selection followed by one \<open>startDebugging\<close>, whose configuration carries the selection.
\<close>

lemma debugCurrentTarget_started:
  assumes "currentLaunchConfiguration E \<noteq> None"
    and "selectDebugger E = (probes, dbg, m, pth)"
  shows "startedConfig (fst (debugCurrentTarget E)) =
     Some \<lparr>config_type = dbg, config_name = ''Debug My Program'', config_request = ''launch'',
           config_cwd = ''${command:Makefile.launchCurrentDir}'',
           config_args = launchTargetArgs E,
           config_program = ''${command:Makefile.launchTargetPath}'',
           miMode = m, miDebuggerPath = pth\<rparr>"
    and "probedPaths (fst (debugCurrentTarget E)) = probedPaths probes"
  using assms
  by (auto simp: debugCurrentTarget_def selectDebugger_def Let_def startedConfig_probes
      probedPaths_probes split: prod.splits)

lemma startsWith_clang_cl: "startsWith n ''clang'' \<Longrightarrow> startsWith n ''cl''"
  by (cases n; cases "tl n") auto

lemma initialGuess_path:
  "p \<noteq> [] \<Longrightarrow> initialGuess P (Some p) =
     (if startsWith (name (parse P p)) ''clang''
      then (''cppdbg'', Some (dir (parse P p)), Some ''lldb'')
      else if startsWith (name (parse P p)) ''cl'' then (''cppvsdbg'', None, None)
      else (''cppdbg'', Some (dir (parse P p)), Some ''gdb''))"
  by (simp add: initialGuess_def parsedObjPathOf_def truthy_def truthyB_def startsWith_clang_cl)

text \<open>Without a compiler path (undefined or empty) the guess is gdb, with no directory.\<close>

lemma initialGuess_no_path:
  "\<not> truthy cp \<Longrightarrow> initialGuess P cp = (''cppdbg'', None, Some ''gdb'')"
  by (simp add: initialGuess_def parsedObjPathOf_def truthyB_def)

text \<open>
  A compiler path without a directory part (a bare command name) leads to no probe: the
  first guess stands, whatever is installed.
\<close>

lemma selectDebugger_no_directory:
  assumes "compilerFullPath E = Some p" and "p \<noteq> []"
    and "dir (parse (pathModule E) p) = []"
  shows "fst (selectDebugger E) = []"
  using assms
  by (simp add: selectDebugger_def initialGuess_path probeDebugger_def split: prod.splits)

lemma selectDebugger_msvc:
  assumes "compilerFullPath E = Some p" and "p \<noteq> []"
    and "\<not> startsWith (name (parse (pathModule E) p)) ''clang''"
    and "startsWith (name (parse (pathModule E) p)) ''cl''"
  shows "selectDebugger E = ([], ''cppvsdbg'', None, None)"
  using assms
  by (simp add: selectDebugger_def initialGuess_path probeDebugger_def finalDebuggerPath_def)

lemma selectDebugger_parts:
  assumes "initialGuess (pathModule E) (compilerFullPath E) = (dbg, dir0, mode0)"
  shows "\<exists>probes m. probeDebugger E dir0 mode0 = (probes, m) \<and>
     selectDebugger E = (probes, dbg, m, finalDebuggerPath E dir0 m)"
  using assms by (cases "probeDebugger E dir0 mode0") (simp add: selectDebugger_def)

lemma selectDebugger_swap:
  assumes "compilerFullPath E = Some p" and "p \<noteq> []"
    and "pp = parse (pathModule E) p"
    and "startsWith (name pp) ''clang'' \<or> \<not> startsWith (name pp) ''cl''"
    and "dir pp \<noteq> []"
    and "m0 = (if startsWith (name pp) ''clang'' then ''lldb'' else ''gdb'')"
    and "\<not> checkFileExistsSync E (withExe E (join (pathModule E) (dir pp) m0))"
  shows "selectDebugger E =
     ([CheckFileExistsSync (withExe E (join (pathModule E) (dir pp) m0))], ''cppdbg'',
      Some (otherMode m0),
      if otherMode m0 = ''lldb'' \<and> platform E = ''darwin'' then None
      else Some (withExe E (join (pathModule E) (dir pp) (otherMode m0))))"
proof -
  have m0: "m0 \<noteq> []"
    using assms(6) by auto
  have guess: "initialGuess (pathModule E) (compilerFullPath E) =
      (''cppdbg'', Some (dir pp), Some m0)"
    using initialGuess_path [OF assms(2), of "pathModule E"] assms(1,3,4,6) by auto
  show ?thesis
    unfolding selectDebugger_def guess
    by (simp add: probeDebugger_missing [OF assms(5) m0 assms(7)]
        finalDebuggerPath_Some [OF assms(5) otherMode_nonempty])
qed

text \<open>
  C1. For every compiler path, the classification that \<open>debugCurrentTarget\<close> makes
  before it probes for the debugger is: a base name that begins with \<open>clang\<close> gives type
  \<open>cppdbg\<close> and mode \<open>lldb\<close>; otherwise a base name that begins with \<open>cl\<close> gives type
  \<open>cppvsdbg\<close>, no mode, and leaves \<open>miMode\<close> and \<open>miDebuggerPath\<close> of the started
  configuration undefined; every other name gives type \<open>cppdbg\<close> and mode \<open>gdb\<close>. The
  type of the started configuration is the classified one, and its mode is the
  classified one whenever every probed path exists.
\<close>

theorem debugCurrentTarget_classification:
  assumes "currentLaunchConfiguration E \<noteq> None"
    and "compilerFullPath E = Some p" and "p \<noteq> []"
    and "n = name (parse (pathModule E) p)"
    and "initialGuess (pathModule E) (compilerFullPath E) = (dbg, dir0, mode0)"
    and "startedConfig (fst (debugCurrentTarget E)) = Some cfg"
  shows "config_type cfg = dbg \<and>
     (if startsWith n ''clang'' then dbg = ''cppdbg'' \<and> mode0 = Some ''lldb''
      else if startsWith n ''cl''
      then dbg = ''cppvsdbg'' \<and> mode0 = None \<and> miMode cfg = None \<and> miDebuggerPath cfg = None
      else dbg = ''cppdbg'' \<and> mode0 = Some ''gdb'') \<and>
     ((\<forall>q \<in> set (probedPaths (fst (debugCurrentTarget E))). checkFileExistsSync E q)
        \<longrightarrow> miMode cfg = mode0)"
proof -
  obtain probes m where pr: "probeDebugger E dir0 mode0 = (probes, m)"
    and sel: "selectDebugger E = (probes, dbg, m, finalDebuggerPath E dir0 m)"
    using selectDebugger_parts [OF assms(5)] by blast
  have cfg: "config_type cfg = dbg" "miMode cfg = m"
      "miDebuggerPath cfg = finalDebuggerPath E dir0 m"
    using debugCurrentTarget_started(1) [OF assms(1) sel] assms(6) by auto
  have probed: "probedPaths (fst (debugCurrentTarget E)) = probedPaths probes"
    using debugCurrentTarget_started(2) [OF assms(1) sel] .
  have kept: "(\<forall>q \<in> set (probedPaths (fst (debugCurrentTarget E))). checkFileExistsSync E q)
        \<longrightarrow> miMode cfg = mode0"
    using probeDebugger_kept [OF pr] probed cfg(2) by auto
  have guess: "(dbg, dir0, mode0) =
     (if startsWith n ''clang'' then (''cppdbg'', Some (dir (parse (pathModule E) p)), Some ''lldb'')
      else if startsWith n ''cl'' then (''cppvsdbg'', None, None)
      else (''cppdbg'', Some (dir (parse (pathModule E) p)), Some ''gdb''))"
    using initialGuess_path [OF assms(3), of "pathModule E"] assms(2,4,5)
    by (auto split: if_splits)
  have classes: "if startsWith n ''clang'' then dbg = ''cppdbg'' \<and> mode0 = Some ''lldb''
      else if startsWith n ''cl''
      then dbg = ''cppvsdbg'' \<and> mode0 = None \<and> miMode cfg = None \<and> miDebuggerPath cfg = None
      else dbg = ''cppdbg'' \<and> mode0 = Some ''gdb''"
  proof (cases "startsWith n ''clang''")
    case True
    then show ?thesis using guess by simp
  next
    case noClang: False
    show ?thesis
    proof (cases "startsWith n ''cl''")
      case True
      have "selectDebugger E = ([], ''cppvsdbg'', None, None)"
        using selectDebugger_msvc [OF assms(2,3)] noClang True assms(4) by simp
      then show ?thesis using noClang True guess cfg sel by (simp add: finalDebuggerPath_def)
    next
      case False
      then show ?thesis using noClang guess by simp
    qed
  qed
  show ?thesis using cfg(1) classes kept by blast
qed

theorem debugCurrentTarget_classification_witness:
  "startedConfig (fst (debugCurrentTarget (exampleHost ''linux'' ''/usr/bin/clang-14'' [''/usr/bin/lldb''])))
     = Some (exampleConfig ''cppdbg'' (Some ''lldb'') (Some ''/usr/bin/lldb'')) \<and>
   startsWith ''clang-14'' ''clang'' \<and>
   startedConfig (fst (debugCurrentTarget (exampleHost ''linux'' ''/opt/msvc/bin/cl.exe'' [])))
     = Some (exampleConfig ''cppvsdbg'' None None) \<and>
   \<not> startsWith ''cl'' ''clang'' \<and> startsWith ''cl'' ''cl'' \<and>
   startedConfig (fst (debugCurrentTarget (exampleHost ''linux'' ''/usr/bin/gcc'' [''/usr/bin/gdb''])))
     = Some (exampleConfig ''cppdbg'' (Some ''gdb'') (Some ''/usr/bin/gdb'')) \<and>
   \<not> startsWith ''gcc'' ''cl'' \<and>
   config_type (exampleConfig ''cppdbg'' (Some ''lldb'') (Some ''/usr/bin/lldb'')) = ''cppdbg'' \<and>
   config_type (exampleConfig ''cppvsdbg'' None None) = ''cppvsdbg'' \<and>
   miMode (exampleConfig ''cppvsdbg'' None None) = None \<and>
   miDebuggerPath (exampleConfig ''cppvsdbg'' None None) = None \<and>
   config_type (exampleConfig ''cppdbg'' (Some ''gdb'') (Some ''/usr/bin/gdb'')) = ''cppdbg''"
proof -
  let ?A = "exampleHost ''linux'' ''/usr/bin/clang-14'' [''/usr/bin/lldb'']"
  let ?B = "exampleHost ''linux'' ''/opt/msvc/bin/cl.exe'' []"
  let ?C = "exampleHost ''linux'' ''/usr/bin/gcc'' [''/usr/bin/gdb'']"
  have a1: "currentLaunchConfiguration ?A \<noteq> None" by (simp add: exampleHost_def)
  have a2: "compilerFullPath ?A = Some ''/usr/bin/clang-14''" by (simp add: exampleHost_def)
  have a4: "''clang-14'' = name (parse (pathModule ?A) ''/usr/bin/clang-14'')" by code_simp
  have a5: "initialGuess (pathModule ?A) (compilerFullPath ?A)
      = (''cppdbg'', Some ''/usr/bin'', Some ''lldb'')" by code_simp
  have a6: "startedConfig (fst (debugCurrentTarget ?A))
      = Some (exampleConfig ''cppdbg'' (Some ''lldb'') (Some ''/usr/bin/lldb''))" by code_simp
  have b1: "currentLaunchConfiguration ?B \<noteq> None" by (simp add: exampleHost_def)
  have b2: "compilerFullPath ?B = Some ''/opt/msvc/bin/cl.exe''" by (simp add: exampleHost_def)
  have b4: "''cl'' = name (parse (pathModule ?B) ''/opt/msvc/bin/cl.exe'')" by code_simp
  have b5: "initialGuess (pathModule ?B) (compilerFullPath ?B) = (''cppvsdbg'', None, None)"
    by code_simp
  have b6: "startedConfig (fst (debugCurrentTarget ?B)) = Some (exampleConfig ''cppvsdbg'' None None)"
    by code_simp
  have c1: "currentLaunchConfiguration ?C \<noteq> None" by (simp add: exampleHost_def)
  have c2: "compilerFullPath ?C = Some ''/usr/bin/gcc''" by (simp add: exampleHost_def)
  have c4: "''gcc'' = name (parse (pathModule ?C) ''/usr/bin/gcc'')" by code_simp
  have c5: "initialGuess (pathModule ?C) (compilerFullPath ?C)
      = (''cppdbg'', Some ''/usr/bin'', Some ''gdb'')" by code_simp
  have c6: "startedConfig (fst (debugCurrentTarget ?C))
      = Some (exampleConfig ''cppdbg'' (Some ''gdb'') (Some ''/usr/bin/gdb''))" by code_simp
  note ra = debugCurrentTarget_classification [OF a1 a2 _ a4 a5 a6]
  note rb = debugCurrentTarget_classification [OF b1 b2 _ b4 b5 b6]
  note rc = debugCurrentTarget_classification [OF c1 c2 _ c4 c5 c6]
  show ?thesis using ra rb rc a6 b6 c6 by simp
qed

text \<open>
  C2, as the code has it. For a compiler that is not of the MSVC family and whose path
  has a directory part, when the debugger first chosen (that directory joined with
  \<open>gdb\<close> or \<open>lldb\<close>, with \<open>.exe\<close> added on Windows only) does not exist, exactly one
  probe is made, the mode is the other one, and the debugger path is the directory
  joined with the new mode's name (with \<open>.exe\<close> on Windows), whether or not that file
  exists; except that on macOS a swap to \<open>lldb\<close> leaves the path undefined.
\<close>

theorem debugCurrentTarget_swaps_once:
  assumes "currentLaunchConfiguration E \<noteq> None"
    and "compilerFullPath E = Some p" and "p \<noteq> []"
    and "pp = parse (pathModule E) p"
    and "startsWith (name pp) ''clang'' \<or> \<not> startsWith (name pp) ''cl''"
    and "dir pp \<noteq> []"
    and "m0 = (if startsWith (name pp) ''clang'' then ''lldb'' else ''gdb'')"
    and "\<not> checkFileExistsSync E (withExe E (join (pathModule E) (dir pp) m0))"
    and "startedConfig (fst (debugCurrentTarget E)) = Some cfg"
  shows "probedPaths (fst (debugCurrentTarget E)) = [withExe E (join (pathModule E) (dir pp) m0)] \<and>
     miMode cfg = Some (otherMode m0) \<and>
     miDebuggerPath cfg =
       (if otherMode m0 = ''lldb'' \<and> platform E = ''darwin'' then None
        else Some (withExe E (join (pathModule E) (dir pp) (otherMode m0))))"
proof -
  note sel = selectDebugger_swap [OF assms(2-8)]
  show ?thesis
    using debugCurrentTarget_started [OF assms(1) sel] assms(9) by auto
qed

text \<open>
  The scenario of C2 on a Linux host: compiler \<open>/usr/bin/gcc\<close>, \<open>/usr/bin/gdb\<close> absent,
  \<open>/usr/bin/lldb\<close> present.
\<close>

theorem debugCurrentTarget_swaps_once_witness:
  "\<not> checkFileExistsSync (exampleHost ''linux'' ''/usr/bin/gcc'' [''/usr/bin/lldb'']) ''/usr/bin/gdb'' \<and>
   checkFileExistsSync (exampleHost ''linux'' ''/usr/bin/gcc'' [''/usr/bin/lldb'']) ''/usr/bin/lldb'' \<and>
   startedConfig (fst (debugCurrentTarget (exampleHost ''linux'' ''/usr/bin/gcc'' [''/usr/bin/lldb''])))
     = Some (exampleConfig ''cppdbg'' (Some ''lldb'') (Some ''/usr/bin/lldb'')) \<and>
   probedPaths (fst (debugCurrentTarget (exampleHost ''linux'' ''/usr/bin/gcc'' [''/usr/bin/lldb''])))
     = [''/usr/bin/gdb''] \<and>
   miMode (exampleConfig ''cppdbg'' (Some ''lldb'') (Some ''/usr/bin/lldb'')) = Some ''lldb'' \<and>
   miDebuggerPath (exampleConfig ''cppdbg'' (Some ''lldb'') (Some ''/usr/bin/lldb''))
     = Some ''/usr/bin/lldb''"
proof -
  let ?E = "exampleHost ''linux'' ''/usr/bin/gcc'' [''/usr/bin/lldb'']"
  let ?pp = "posix_parse ''/usr/bin/gcc''"
  have h1: "currentLaunchConfiguration ?E \<noteq> None" by (simp add: exampleHost_def)
  have h2: "compilerFullPath ?E = Some ''/usr/bin/gcc''" by (simp add: exampleHost_def)
  have h4: "?pp = parse (pathModule ?E) ''/usr/bin/gcc''" by (simp add: exampleHost_def posix_def)
  have h5: "startsWith (name ?pp) ''clang'' \<or> \<not> startsWith (name ?pp) ''cl''" by code_simp
  have h6: "dir ?pp \<noteq> []" by code_simp
  have h7: "''gdb'' = (if startsWith (name ?pp) ''clang'' then ''lldb'' else ''gdb'')" by code_simp
  have cand: "withExe ?E (join (pathModule ?E) (dir ?pp) ''gdb'') = ''/usr/bin/gdb''" by code_simp
  have h8: "\<not> checkFileExistsSync ?E (withExe ?E (join (pathModule ?E) (dir ?pp) ''gdb''))"
    by code_simp
  have h9: "startedConfig (fst (debugCurrentTarget ?E))
      = Some (exampleConfig ''cppdbg'' (Some ''lldb'') (Some ''/usr/bin/lldb''))" by code_simp
  have present: "checkFileExistsSync ?E ''/usr/bin/lldb''" by code_simp
  have absent: "\<not> checkFileExistsSync ?E ''/usr/bin/gdb''" by code_simp
  note r = debugCurrentTarget_swaps_once [OF h1 h2 _ h4 h5 h6 h7 h8 h9]
  have probed: "probedPaths (fst (debugCurrentTarget ?E)) = [''/usr/bin/gdb'']"
    using r cand by simp
  show ?thesis using probed h9 present absent by (simp add: exampleConfig_def)
qed

text \<open>
  C2 as it is stated fails on macOS: with compiler \<open>/usr/bin/gcc\<close>, \<open>/usr/bin/gdb\<close> absent
  and \<open>/usr/bin/lldb\<close> present, the mode becomes \<open>lldb\<close> but the debugger path is
  undefined, not \<open>/usr/bin/lldb\<close>.
\<close>

theorem debugCurrentTarget_swap_counterexample:
  "\<not> checkFileExistsSync (exampleHost ''darwin'' ''/usr/bin/gcc'' [''/usr/bin/lldb'']) ''/usr/bin/gdb'' \<and>
   checkFileExistsSync (exampleHost ''darwin'' ''/usr/bin/gcc'' [''/usr/bin/lldb'']) ''/usr/bin/lldb'' \<and>
   startedConfig (fst (debugCurrentTarget (exampleHost ''darwin'' ''/usr/bin/gcc'' [''/usr/bin/lldb''])))
     = Some (exampleConfig ''cppdbg'' (Some ''lldb'') None) \<and>
   miDebuggerPath (exampleConfig ''cppdbg'' (Some ''lldb'') None) \<noteq> Some ''/usr/bin/lldb''"
  by code_simp

text \<open>
  C5. Whenever the mode of the started configuration is \<open>lldb\<close> and the platform is
  \<open>darwin\<close>, its \<open>miDebuggerPath\<close> is undefined, whatever files exist; and this is the only
  case in which the compiler's directory, once taken as \<open>miDebuggerPath\<close>, is discarded.
\<close>

theorem debugCurrentTarget_darwin_lldb:
  assumes "currentLaunchConfiguration E \<noteq> None"
    and "initialGuess (pathModule E) (compilerFullPath E) = (dbg, dir0, mode0)"
    and "startedConfig (fst (debugCurrentTarget E)) = Some cfg"
  shows "(miMode cfg = Some ''lldb'' \<and> platform E = ''darwin'' \<longrightarrow> miDebuggerPath cfg = None) \<and>
     (dir0 \<noteq> None \<and> miDebuggerPath cfg = None
        \<longrightarrow> miMode cfg = Some ''lldb'' \<and> platform E = ''darwin'')"
proof -
  obtain probes m where sel: "selectDebugger E = (probes, dbg, m, finalDebuggerPath E dir0 m)"
    using selectDebugger_parts [OF assms(2)] by blast
  have cfg: "miMode cfg = m" "miDebuggerPath cfg = finalDebuggerPath E dir0 m"
    using debugCurrentTarget_started(1) [OF assms(1) sel] assms(3) by auto
  show ?thesis
    using cfg finalDebuggerPath_None [of E _ m] finalDebuggerPath_darwin [of E dir0] by auto
qed

theorem debugCurrentTarget_darwin_lldb_witness:
  "platform (exampleHost ''darwin'' ''/usr/bin/clang'' [''/usr/bin/lldb'']) = ''darwin'' \<and>
   startedConfig (fst (debugCurrentTarget (exampleHost ''darwin'' ''/usr/bin/clang'' [''/usr/bin/lldb''])))
     = Some (exampleConfig ''cppdbg'' (Some ''lldb'') None) \<and>
   platform (exampleHost ''darwin'' ''/usr/bin/gcc'' []) = ''darwin'' \<and>
   startedConfig (fst (debugCurrentTarget (exampleHost ''darwin'' ''/usr/bin/gcc'' [])))
     = Some (exampleConfig ''cppdbg'' (Some ''lldb'') None) \<and>
   miMode (exampleConfig ''cppdbg'' (Some ''lldb'') None) = Some ''lldb'' \<and>
   miDebuggerPath (exampleConfig ''cppdbg'' (Some ''lldb'') None) = None \<and>
   Some ''/usr/bin'' \<noteq> (None :: string option)"
proof -
  let ?A = "exampleHost ''darwin'' ''/usr/bin/clang'' [''/usr/bin/lldb'']"
  let ?B = "exampleHost ''darwin'' ''/usr/bin/gcc'' []"
  have a1: "currentLaunchConfiguration ?A \<noteq> None" by (simp add: exampleHost_def)
  have a2: "initialGuess (pathModule ?A) (compilerFullPath ?A)
      = (''cppdbg'', Some ''/usr/bin'', Some ''lldb'')" by code_simp
  have a3: "startedConfig (fst (debugCurrentTarget ?A))
      = Some (exampleConfig ''cppdbg'' (Some ''lldb'') None)" by code_simp
  have b1: "currentLaunchConfiguration ?B \<noteq> None" by (simp add: exampleHost_def)
  have b2: "initialGuess (pathModule ?B) (compilerFullPath ?B)
      = (''cppdbg'', Some ''/usr/bin'', Some ''gdb'')" by code_simp
  have b3: "startedConfig (fst (debugCurrentTarget ?B))
      = Some (exampleConfig ''cppdbg'' (Some ''lldb'') None)" by code_simp
  note ra = debugCurrentTarget_darwin_lldb [OF a1 a2 a3]
  note rb = debugCurrentTarget_darwin_lldb [OF b1 b2 b3]
  show ?thesis using ra rb a3 b3 by (simp add: exampleHost_def exampleConfig_def)
qed

section \<open>No launch configuration\<close>

text \<open>
  C8. If no launch configuration is selected, \<open>debugCurrentTarget\<close> does nothing but show
  the error message and write the log entry, and returns no session: no path is probed
  and no debug session is started, whatever the compiler path, the platform and the
  files are. \<open>runCurrentTarget\<close> ends with the same message and log entry, after at
  most the creation of its terminal, to which it sends nothing.
\<close>

theorem no_launch_configuration_aborts:
  assumes "currentLaunchConfiguration E = None"
  shows "debugCurrentTarget E =
       ([ShowErrorMessage ''Currently there is no launch configuration set.'',
         LogMessage noLaunchConfigurationLog], None) \<and>
     (\<exists>created s' t. runCurrentTarget E s =
       (created @ [ShowErrorMessage ''Currently there is no launch configuration set.'',
                   LogMessage noLaunchConfigurationLog], s', t) \<and>
       (\<forall>e \<in> set created. \<exists>opts. e = CreateTerminal opts t))"
  using assms
  by (auto simp: debugCurrentTarget_def runCurrentTarget_def Let_def createTerminal_def
      split: option.splits prod.splits)

theorem no_launch_configuration_aborts_witness:
  "currentLaunchConfiguration
     ((exampleHost ''linux'' ''/usr/bin/gcc'' [''/usr/bin/gdb''])\<lparr>currentLaunchConfiguration := None\<rparr>)
     = None \<and>
   debugCurrentTarget
     ((exampleHost ''linux'' ''/usr/bin/gcc'' [''/usr/bin/gdb''])\<lparr>currentLaunchConfiguration := None\<rparr>)
     = ([ShowErrorMessage ''Currently there is no launch configuration set.'',
         LogMessage noLaunchConfigurationLog], None) \<and>
   fst (runCurrentTarget
     ((exampleHost ''linux'' ''/usr/bin/gcc'' [''/usr/bin/gdb''])\<lparr>currentLaunchConfiguration := None\<rparr>)
     \<lparr>launchTerminal = None, terminalsCreated = 0\<rparr>)
     = [CreateTerminal \<lparr>term_name = ''Make/Launch'', term_shellPath = None, term_cwd = None\<rparr> 0,
        ShowErrorMessage ''Currently there is no launch configuration set.'',
        LogMessage noLaunchConfigurationLog]"
proof -
  let ?N = "(exampleHost ''linux'' ''/usr/bin/gcc'' [''/usr/bin/gdb''])\<lparr>currentLaunchConfiguration := None\<rparr>"
  have h: "currentLaunchConfiguration ?N = None" by simp
  have run: "fst (runCurrentTarget ?N \<lparr>launchTerminal = None, terminalsCreated = 0\<rparr>)
     = [CreateTerminal \<lparr>term_name = ''Make/Launch'', term_shellPath = None, term_cwd = None\<rparr> 0,
        ShowErrorMessage ''Currently there is no launch configuration set.'',
        LogMessage noLaunchConfigurationLog]"
    by (simp add: runCurrentTarget_def createTerminal_def exampleHost_def)
  note r = no_launch_configuration_aborts [OF h, of "\<lparr>launchTerminal = None, terminalsCreated = 0\<rparr>"]
  show ?thesis using r h run by simp
qed

text \<open>
  C10. Without a launch configuration, \<open>launchTargetPath\<close> is the empty string,
  \<open>launchCurrentDir\<close> is the workspace root path (the empty string if there is none) and
  \<open>launchTargetArgs\<close> is the empty array; and \<open>launchTargetArgsConcat\<close> is always the
  arguments of \<open>launchTargetArgs\<close> with one space between each two.
\<close>

lemma js_join_Cons: "js_join sep (x # xs) = x @ concat (map (\<lambda>y. sep @ y) xs)"
  by (induction xs arbitrary: x) auto

lemma launchTargetArgsConcat_eq:
  "launchTargetArgsConcat E =
     (case launchTargetArgs E of [] \<Rightarrow> [] | a # as \<Rightarrow> a @ concat (map (\<lambda>b. '' '' @ b) as))"
  unfolding launchTargetArgsConcat_def
  by (cases "launchTargetArgs E") (simp_all only: js_join.simps js_join_Cons list.case)

theorem launch_accessors_defaults:
  "(currentLaunchConfiguration E = None \<longrightarrow>
      launchTargetPath E = [] \<and>
      launchCurrentDir E = (case rootPath E of None \<Rightarrow> [] | Some r \<Rightarrow> r) \<and>
      launchTargetArgs E = []) \<and>
   launchTargetArgsConcat E =
     (case launchTargetArgs E of [] \<Rightarrow> [] | a # as \<Rightarrow> a @ concat (map (\<lambda>b. '' '' @ b) as))"
proof -
  have "currentLaunchConfiguration E = None \<longrightarrow>
      launchTargetPath E = [] \<and>
      launchCurrentDir E = (case rootPath E of None \<Rightarrow> [] | Some r \<Rightarrow> r) \<and>
      launchTargetArgs E = []"
    by (auto simp: launchTargetPath_def launchCurrentDir_def launchTargetArgs_def orElse_def
        split: option.splits)
  then show ?thesis using launchTargetArgsConcat_eq [of E] by blast
qed

theorem launch_accessors_defaults_witness:
  "currentLaunchConfiguration
     ((exampleHost ''linux'' ''/usr/bin/gcc'' [])\<lparr>currentLaunchConfiguration := None\<rparr>) = None \<and>
   launchTargetPath ((exampleHost ''linux'' ''/usr/bin/gcc'' [])\<lparr>currentLaunchConfiguration := None\<rparr>) = [] \<and>
   launchCurrentDir ((exampleHost ''linux'' ''/usr/bin/gcc'' [])\<lparr>currentLaunchConfiguration := None\<rparr>)
     = ''/w'' \<and>
   launchTargetArgs ((exampleHost ''linux'' ''/usr/bin/gcc'' [])\<lparr>currentLaunchConfiguration := None\<rparr>) = [] \<and>
   launchTargetArgsConcat
     ((exampleHost ''linux'' ''/usr/bin/gcc'' [])\<lparr>currentLaunchConfiguration :=
        Some \<lparr>binary = ''/w/a.out'', cwd = ''/w'', args = [''-v'', ''in.txt'', ''out.txt'']\<rparr>\<rparr>)
     = ''-v in.txt out.txt''"
proof -
  let ?N = "(exampleHost ''linux'' ''/usr/bin/gcc'' [])\<lparr>currentLaunchConfiguration := None\<rparr>"
  let ?L = "(exampleHost ''linux'' ''/usr/bin/gcc'' [])\<lparr>currentLaunchConfiguration :=
        Some \<lparr>binary = ''/w/a.out'', cwd = ''/w'', args = [''-v'', ''in.txt'', ''out.txt'']\<rparr>\<rparr>"
  have h: "currentLaunchConfiguration ?N = None" by simp
  have root: "rootPath ?N = Some ''/w''" by (simp add: exampleHost_def)
  have as: "launchTargetArgs ?L = [''-v'', ''in.txt'', ''out.txt'']"
    by (simp add: launchTargetArgs_def)
  note rn = launch_accessors_defaults [of ?N]
  note rl = launch_accessors_defaults [of ?L]
  show ?thesis using rn rl h root as by simp
qed

section \<open>The retained terminal\<close>

text \<open>A retained handle stays one of the window's terminals.\<close>

lemma handleValid_runCurrentTarget:
  "handleValid s \<Longrightarrow> runCurrentTarget E s = (evs, s', r) \<Longrightarrow>
   handleValid s' \<and> launchTerminal s' = Some r"
  by (auto simp: handleValid_def runCurrentTarget_def createTerminal_def Let_def
      split: option.splits if_splits)

lemma handleValid_onTerminalClose: "handleValid s \<Longrightarrow> handleValid (onTerminalClose t s)"
  by (auto simp: handleValid_def onTerminalClose_def split: option.splits)

text \<open>
  C9. The launcher holds at most one terminal (the field is one optional handle). When
  the retained terminal is closed, the watcher resets the field to undefined, and the
  next \<open>runCurrentTarget\<close> creates one new terminal, different from the closed one,
  retains it, and sends and shows nothing on the closed one. The closing of any other
  terminal leaves the launcher's state as it was.
\<close>

theorem terminal_close_resets_handle:
  assumes "launchTerminal s = Some t" and "t < terminalsCreated s"
    and "runCurrentTarget E (onTerminalClose t s) = (evs, s', r)"
  shows "launchTerminal (onTerminalClose t s) = None \<and>
     (\<forall>u. u \<noteq> t \<longrightarrow> onTerminalClose u s = s) \<and>
     terminalsMade evs = [r] \<and> r \<noteq> t \<and> launchTerminal s' = Some r \<and>
     t \<notin> set (terminalsUsed evs)"
  using assms
  by (auto simp: onTerminalClose_def runCurrentTarget_def createTerminal_def Let_def
      split: if_splits)

theorem terminal_close_resets_handle_witness:
  "launchTerminal \<lparr>launchTerminal = Some 0, terminalsCreated = Suc 0\<rparr> = Some 0 \<and>
   (0::nat) < terminalsCreated \<lparr>launchTerminal = Some 0, terminalsCreated = Suc 0\<rparr> \<and>
   runCurrentTarget (exampleHost ''linux'' ''/usr/bin/gcc'' [])
       (onTerminalClose 0 \<lparr>launchTerminal = Some 0, terminalsCreated = Suc 0\<rparr>)
     = ([CreateTerminal \<lparr>term_name = ''Make/Launch'', term_shellPath = None, term_cwd = None\<rparr> (Suc 0),
         SendText (Suc 0) (dquote @ ''/w/a.out'' @ dquote @ '' -v''),
         ShowTerminal (Suc 0)],
        \<lparr>launchTerminal = Some (Suc 0), terminalsCreated = Suc (Suc 0)\<rparr>, Suc 0) \<and>
   launchTerminal (onTerminalClose 0 \<lparr>launchTerminal = Some 0, terminalsCreated = Suc 0\<rparr>) = None \<and>
   onTerminalClose (Suc 0) \<lparr>launchTerminal = Some 0, terminalsCreated = Suc 0\<rparr>
     = \<lparr>launchTerminal = Some 0, terminalsCreated = Suc 0\<rparr>"
proof -
  let ?s = "\<lparr>launchTerminal = Some 0, terminalsCreated = Suc 0\<rparr>"
  let ?E = "exampleHost ''linux'' ''/usr/bin/gcc'' []"
  have h1: "launchTerminal ?s = Some 0" by simp
  have h2: "(0::nat) < terminalsCreated ?s" by simp
  have h3: "runCurrentTarget ?E (onTerminalClose 0 ?s)
     = ([CreateTerminal \<lparr>term_name = ''Make/Launch'', term_shellPath = None, term_cwd = None\<rparr> (Suc 0),
         SendText (Suc 0) (dquote @ ''/w/a.out'' @ dquote @ '' -v''),
         ShowTerminal (Suc 0)],
        \<lparr>launchTerminal = Some (Suc 0), terminalsCreated = Suc (Suc 0)\<rparr>, Suc 0)"
    by (simp add: runCurrentTarget_def onTerminalClose_def createTerminal_def exampleHost_def
        launchTargetPath_def launchTargetArgs_def)
  note r = terminal_close_resets_handle [OF h1 h2 h3]
  show ?thesis using r h1 h2 h3 by simp
qed

section \<open>The make operations\<close>

lemma targetAndMakeArgs_eq: "targetAndMakeArgs M = targetPart M @ configurationMakeArgs M"
  by (auto simp: targetAndMakeArgs_def targetPart_def truthy_def split: option.splits)

lemma dryRunMakeArgs_eq:
  "dryRunMakeArgs M = targetPart M @ configurationMakeArgs M @ [''--dry-run''] @ switchesPart M"
  by (auto simp: dryRunMakeArgs_def targetAndMakeArgs_eq switchesPart_def split: option.splits)

lemma spawned_append: "spawned (xs @ ys) = spawned xs @ spawned ys"
  by (induction xs rule: spawned.induct) auto

lemma spawned_logFragments: "spawned (logFragments fs) = []"
  by (induction fs rule: logFragments.induct) auto

lemma spawned_dryRunClosing: "spawned (fst (dryRunClosing M out err rc)) = []"
  by (simp add: dryRunClosing_def Let_def spawned_append split: option.splits)

lemma spawned_parseBuild: "spawned (fst (parseBuild M)) = []"
  by (simp add: parseBuild_def Let_def split: prod.splits)

lemma spawned_buildCurrentTarget:
  "spawned (buildCurrentTarget M) =
     [(configurationMakeCommand M, targetPart M @ configurationMakeArgs M,
       orElse (workspaceRootPath M) [])]"
  by (simp add: buildCurrentTarget_def prepareBuildCurrentTarget_def Let_def
      targetAndMakeArgs_eq spawned_append spawned_logFragments split: spawn_outcome.splits)

lemma spawned_parseBuildOrDryRun:
  "spawned (fst (parseBuildOrDryRun M)) =
     (if snd (parseBuild M) then []
      else [(configurationMakeCommand M, dryRunMakeArgs M, orElse (workspaceRootPath M) [])])"
proof -
  obtain parsed finished where p: "parseBuild M = (parsed, finished)"
    by (cases "parseBuild M") auto
  have parsed: "spawned parsed = []"
    using spawned_parseBuild [of M] p by simp
  show ?thesis
  proof (cases "spawnChildProcess M (configurationMakeCommand M) (dryRunMakeArgs M)
      (orElse (workspaceRootPath M) [])")
    case (SpawnFails error)
    then show ?thesis
      using parsed by (simp add: parseBuildOrDryRun_def p Let_def spawned_append)
  next
    case (Exited fs retCode signal)
    obtain out err where c: "collectFragments ([], []) fs = (out, err)"
      by (cases "collectFragments ([], []) fs") auto
    obtain closed thrown where d: "dryRunClosing M out err retCode = (closed, thrown)"
      by (cases "dryRunClosing M out err retCode") auto
    have "spawned closed = []"
      using spawned_dryRunClosing [of M out err retCode] d by simp
    then show ?thesis
      using parsed by (simp add: parseBuildOrDryRun_def p Exited c d Let_def spawned_append)
  qed
qed

text \<open>
  C3. For every target, configured arguments and dry-run switches, the argument list
  that \<open>prepareBuildCurrentTarget\<close> returns, and that \<open>buildCurrentTarget\<close> spawns make
  with, is the target (when there is one, an empty target counting as none) followed by
  the configured arguments in their order; the list that \<open>parseBuildOrDryRun\<close> spawns
  make with, when it spawns, is the same followed by \<open>--dry-run\<close> and the configured
  dry-run switches in their order.
\<close>

theorem make_arguments_assembled:
  "snd (prepareBuildCurrentTarget M) = targetPart M @ configurationMakeArgs M \<and>
   map (fst \<circ> snd) (spawned (buildCurrentTarget M)) = [targetPart M @ configurationMakeArgs M] \<and>
   dryRunMakeArgs M = targetPart M @ configurationMakeArgs M @ [''--dry-run''] @ switchesPart M \<and>
   map (fst \<circ> snd) (spawned (fst (parseBuildOrDryRun M))) =
     (if snd (parseBuild M) then []
      else [targetPart M @ configurationMakeArgs M @ [''--dry-run''] @ switchesPart M])"
  by (simp add: prepareBuildCurrentTarget_def Let_def targetAndMakeArgs_eq
      spawned_buildCurrentTarget spawned_parseBuildOrDryRun dryRunMakeArgs_eq)

theorem make_arguments_assembled_witness:
  "snd (prepareBuildCurrentTarget (exampleMake None None [] (Exited [] 0 None))) = [''all'', ''-j4''] \<and>
   map (fst \<circ> snd) (spawned (buildCurrentTarget (exampleMake None None [] (Exited [] 0 None))))
     = [[''all'', ''-j4'']] \<and>
   \<not> snd (parseBuild (exampleMake None None [] (Exited [] 0 None))) \<and>
   map (fst \<circ> snd) (spawned (fst (parseBuildOrDryRun (exampleMake None None [] (Exited [] 0 None)))))
     = [[''all'', ''-j4'', ''--dry-run'', ''--always-make'', ''--keep-going'']] \<and>
   snd (prepareBuildCurrentTarget ((exampleMake None None [] (Exited [] 0 None))\<lparr>currentTarget := Some []\<rparr>))
     = [''-j4'']"
proof -
  let ?M = "exampleMake None None [] (Exited [] 0 None)"
  have t: "targetPart ?M = [''all'']" by (simp add: targetPart_def exampleMake_def)
  have t': "targetPart (?M\<lparr>currentTarget := Some []\<rparr>) = []" by (simp add: targetPart_def)
  have a: "configurationMakeArgs ?M = [''-j4'']" by (simp add: exampleMake_def)
  have sw: "switchesPart ?M = [''--always-make'', ''--keep-going'']"
    by (simp add: switchesPart_def exampleMake_def)
  have nolog: "\<not> snd (parseBuild ?M)" by (simp add: parseBuild_def exampleMake_def truthy_def)
  note r = make_arguments_assembled [of ?M]
  note r' = make_arguments_assembled [of "?M\<lparr>currentTarget := Some []\<rparr>"]
  show ?thesis using r r' t t' a sw nolog by simp
qed

lemma parseBuild_log:
  assumes "configurationBuildLog M = Some p" and "p \<noteq> []"
    and "readFile M p = Some c" and "c \<noteq> []"
  shows "parseBuild M =
     ([ReadFile p,
       LogMessage (''Parsing the provided build log '' @ dquote @ p @ dquote @
                   '' for IntelliSense integration with CppTools...''),
       UpdateProvider c], True)"
  using assms by (simp add: parseBuild_def truthy_def)

text \<open>
  C4. When a build log is configured and reading it gives non-empty contents,
  \<open>parseBuildOrDryRun\<close> reads the log, writes one log entry, hands the whole contents to
  \<open>updateProvider\<close> and stops, with no exception: no process is spawned.
\<close>

theorem parseBuildOrDryRun_build_log:
  assumes "configurationBuildLog M = Some p" and "p \<noteq> []"
    and "readFile M p = Some c" and "c \<noteq> []"
  shows "parseBuildOrDryRun M =
       ([ReadFile p,
         LogMessage (''Parsing the provided build log '' @ dquote @ p @ dquote @
                     '' for IntelliSense integration with CppTools...''),
         UpdateProvider c], None) \<and>
     spawned (fst (parseBuildOrDryRun M)) = []"
  using parseBuild_log [OF assms] by (simp add: parseBuildOrDryRun_def)

theorem parseBuildOrDryRun_build_log_witness:
  "configurationBuildLog
     (exampleMake (Some ''/w/build.log'') None [(''/w/build.log'', ''gcc -c a.c'')] (Exited [] 0 None))
     = Some ''/w/build.log'' \<and>
   readFile
     (exampleMake (Some ''/w/build.log'') None [(''/w/build.log'', ''gcc -c a.c'')] (Exited [] 0 None))
     ''/w/build.log'' = Some ''gcc -c a.c'' \<and>
   parseBuildOrDryRun
     (exampleMake (Some ''/w/build.log'') None [(''/w/build.log'', ''gcc -c a.c'')] (Exited [] 0 None))
     = ([ReadFile ''/w/build.log'',
         LogMessage (''Parsing the provided build log '' @ dquote @ ''/w/build.log'' @ dquote @
                     '' for IntelliSense integration with CppTools...''),
         UpdateProvider ''gcc -c a.c''], None) \<and>
   spawned (fst (parseBuildOrDryRun
     (exampleMake (Some ''/w/build.log'') None [(''/w/build.log'', ''gcc -c a.c'')] (Exited [] 0 None))))
     = []"
proof -
  let ?M = "exampleMake (Some ''/w/build.log'') None [(''/w/build.log'', ''gcc -c a.c'')] (Exited [] 0 None)"
  have h1: "configurationBuildLog ?M = Some ''/w/build.log''" by (simp add: exampleMake_def)
  have h2: "''/w/build.log'' \<noteq> []" by simp
  have h3: "readFile ?M ''/w/build.log'' = Some ''gcc -c a.c''" by (simp add: exampleMake_def)
  have h4: "''gcc -c a.c'' \<noteq> []" by simp
  note r = parseBuildOrDryRun_build_log [OF h1 h2 h3 h4]
  show ?thesis using r h1 h3 by simp
qed

lemma collectFragments_stdout:
  "fst (collectFragments (out, err) fs) = out @ stdoutOf fs"
  by (induction "(out, err)" fs arbitrary: out err rule: collectFragments.induct) auto

lemma cacheAndProvider_append:
  "cacheAndProvider (xs @ ys) = cacheAndProvider xs @ cacheAndProvider ys"
  by (induction xs rule: cacheAndProvider.induct) auto

lemma count_list_append: "count_list (xs @ ys) x = count_list xs x + count_list ys x"
  by (induction xs) auto

lemma parseBuild_not_done:
  "\<not> snd (parseBuild M) \<Longrightarrow>
     cacheAndProvider (fst (parseBuild M)) = [] \<and>
     count_list (fst (parseBuild M)) ReportDryRunError = 0"
  by (auto simp: parseBuild_def Let_def split: if_splits prod.splits)

text \<open>
  C6, as the code has it. When no build log is parsed and the dry-run process exits,
  with whatever code, \<open>reportDryRunError\<close> is called once if the exit code is not zero
  and not at all if it is zero, and then the stdout the process produced is passed to
  \<open>fs.writeFileSync\<close> for the dry-run cache. If that write does not throw, the same
  stdout is handed to \<open>updateProvider\<close>; if it throws, the exception leaves the
  callback and \<open>updateProvider\<close> is not called. These are the only writes and updates
  of the run.
\<close>

theorem dryRun_exit_cache_and_signal:
  assumes "\<not> snd (parseBuild M)"
    and "spawnChildProcess M (configurationMakeCommand M) (dryRunMakeArgs M)
           (orElse (workspaceRootPath M) []) = Exited fs retCode signal"
  shows "cacheAndProvider (fst (parseBuildOrDryRun M)) =
       WriteFileSync (dryrunCache M) (stdoutOf fs) #
       (case writeFileSync M (dryrunCache M) (stdoutOf fs) of
          None \<Rightarrow> [UpdateProvider (stdoutOf fs)]
        | Some error \<Rightarrow> []) \<and>
     count_list (fst (parseBuildOrDryRun M)) ReportDryRunError = (if retCode \<noteq> 0 then 1 else 0) \<and>
     snd (parseBuildOrDryRun M) = writeFileSync M (dryrunCache M) (stdoutOf fs)"
proof -
  obtain out err where c: "collectFragments ([], []) fs = (out, err)"
    by (cases "collectFragments ([], []) fs") auto
  have out: "out = stdoutOf fs"
    using collectFragments_stdout [of "[]" "[]" fs] c by simp
  obtain parsed where p: "parseBuild M = (parsed, False)"
    using assms(1) by (cases "parseBuild M") auto
  have parsed: "cacheAndProvider parsed = []" "count_list parsed ReportDryRunError = 0"
    using parseBuild_not_done [OF assms(1)] p by auto
  show ?thesis
  proof (cases "writeFileSync M (dryrunCache M) (stdoutOf fs)")
    case None
    then show ?thesis
      using parsed
      by (simp add: parseBuildOrDryRun_def p assms(2) c out dryRunClosing_def Let_def
          cacheAndProvider_append count_list_append)
  next
    case (Some error)
    then show ?thesis
      using parsed
      by (simp add: parseBuildOrDryRun_def p assms(2) c out dryRunClosing_def Let_def
          cacheAndProvider_append count_list_append)
  qed
qed

theorem dryRun_exit_cache_and_signal_witness:
  "\<not> snd (parseBuild (exampleMake None None []
       (Exited [StdoutData ''cc -c a.c; '', StderrData ''make: *** Error 2'', StdoutData ''cc -c b.c''] 2 None))) \<and>
   cacheAndProvider (fst (parseBuildOrDryRun (exampleMake None None []
       (Exited [StdoutData ''cc -c a.c; '', StderrData ''make: *** Error 2'', StdoutData ''cc -c b.c''] 2 None))))
     = [WriteFileSync ''/w/dryrun.log'' ''cc -c a.c; cc -c b.c'', UpdateProvider ''cc -c a.c; cc -c b.c''] \<and>
   count_list (fst (parseBuildOrDryRun (exampleMake None None []
       (Exited [StdoutData ''cc -c a.c; '', StderrData ''make: *** Error 2'', StdoutData ''cc -c b.c''] 2 None))))
     ReportDryRunError = 1 \<and>
   \<not> snd (parseBuild (exampleMake None None [] (Exited [StdoutData ''cc -c a.c''] 0 None))) \<and>
   cacheAndProvider (fst (parseBuildOrDryRun (exampleMake None None [] (Exited [StdoutData ''cc -c a.c''] 0 None))))
     = [WriteFileSync ''/w/dryrun.log'' ''cc -c a.c'', UpdateProvider ''cc -c a.c''] \<and>
   count_list (fst (parseBuildOrDryRun (exampleMake None None [] (Exited [StdoutData ''cc -c a.c''] 0 None))))
     ReportDryRunError = 0 \<and>
   snd (parseBuildOrDryRun (exampleMake None None [] (Exited [StdoutData ''cc -c a.c''] 0 None))) = None"
proof -
  let ?fs = "[StdoutData ''cc -c a.c; '', StderrData ''make: *** Error 2'', StdoutData ''cc -c b.c'']"
  let ?F = "exampleMake None None [] (Exited ?fs 2 None)"
  let ?Z = "exampleMake None None [] (Exited [StdoutData ''cc -c a.c''] 0 None)"
  have f1: "\<not> snd (parseBuild ?F)" by (simp add: parseBuild_def exampleMake_def truthy_def)
  have f2: "spawnChildProcess ?F (configurationMakeCommand ?F) (dryRunMakeArgs ?F)
      (orElse (workspaceRootPath ?F) []) = Exited ?fs 2 None" by (simp add: exampleMake_def)
  have z1: "\<not> snd (parseBuild ?Z)" by (simp add: parseBuild_def exampleMake_def truthy_def)
  have z2: "spawnChildProcess ?Z (configurationMakeCommand ?Z) (dryRunMakeArgs ?Z)
      (orElse (workspaceRootPath ?Z) []) = Exited [StdoutData ''cc -c a.c''] 0 None"
    by (simp add: exampleMake_def)
  have cache: "dryrunCache ?F = ''/w/dryrun.log''" "dryrunCache ?Z = ''/w/dryrun.log''"
    by (simp_all add: exampleMake_def)
  have written: "writeFileSync ?F = (\<lambda>file data. None)" "writeFileSync ?Z = (\<lambda>file data. None)"
    by (simp_all add: exampleMake_def)
  note rf = dryRun_exit_cache_and_signal [OF f1 f2]
  note rz = dryRun_exit_cache_and_signal [OF z1 z2]
  show ?thesis using rf rz f1 z1 cache written by simp
qed

text \<open>
  C6 as it is stated fails when the cache cannot be written: the dry-run exits with
  code 2 and stdout \<open>cc -c a.c\<close>, \<open>fs.writeFileSync\<close> throws, and the stdout is not
  handed to \<open>updateProvider\<close>.
\<close>

theorem dryRun_exit_write_fails_counterexample:
  "\<not> snd (parseBuild (exampleMakeNoCache (Exited [StdoutData ''cc -c a.c''] 2 None))) \<and>
   fst (parseBuildOrDryRun (exampleMakeNoCache (Exited [StdoutData ''cc -c a.c''] 2 None))) =
     [LogMessage (''Generating the make dry-run output for parsing IntelliSense information. Command: '' @
                  ''make all -j4 --dry-run --always-make --keep-going''),
      SpawnChildProcess ''make'' [''all'', ''-j4'', ''--dry-run'', ''--always-make'', ''--keep-going''] ''/w'',
      LogMessage ''The make dry-run command failed. IntelliSense may work only partially or not at all.'',
      LogMessage [],
      ReportDryRunError,
      WriteFileSync ''/w/dryrun.log'' ''cc -c a.c''] \<and>
   UpdateProvider ''cc -c a.c''
     \<notin> set (fst (parseBuildOrDryRun (exampleMakeNoCache (Exited [StdoutData ''cc -c a.c''] 2 None)))) \<and>
   snd (parseBuildOrDryRun (exampleMakeNoCache (Exited [StdoutData ''cc -c a.c''] 2 None)))
     = Some ''ENOENT: no such file or directory''"
  by code_simp

text \<open>
  C7. If the pre-configure script path is undefined or empty, or the file does not
  exist, \<open>runPreconfigureScript\<close> shows the error message, writes the log entry and
  returns: the only other call it makes is the existence check of a non-empty path, and
  no process is spawned.
\<close>

theorem runPreconfigureScript_missing:
  assumes "preconfigureScript M = None \<or> preconfigureScript M = Some [] \<or>
           (\<exists>s. preconfigureScript M = Some s \<and> \<not> fileExistsSync M s)"
  shows "runPreconfigureScript M =
       (case preconfigureScript M of
          None \<Rightarrow> []
        | Some s \<Rightarrow> if s = [] then [] else [CheckFileExistsSync s]) @
       [ShowErrorMessage ''Could not find pre-configure script.'',
        LogMessage (''Make sure a pre-configuration script path is defined with '' @
                    ''makefile.preconfigureScript and that it exists on disk.'')] \<and>
     spawned (runPreconfigureScript M) = []"
  using assms by (auto simp: runPreconfigureScript_def truthy_def Let_def)

theorem runPreconfigureScript_missing_witness:
  "preconfigureScript (exampleMake None None [] (Exited [] 0 None)) = None \<and>
   runPreconfigureScript (exampleMake None None [] (Exited [] 0 None)) =
     [ShowErrorMessage ''Could not find pre-configure script.'',
      LogMessage (''Make sure a pre-configuration script path is defined with '' @
                  ''makefile.preconfigureScript and that it exists on disk.'')] \<and>
   preconfigureScript (exampleMake None (Some ''/w/pre.sh'') [] (Exited [] 0 None)) = Some ''/w/pre.sh'' \<and>
   \<not> fileExistsSync (exampleMake None (Some ''/w/pre.sh'') [] (Exited [] 0 None)) ''/w/pre.sh'' \<and>
   runPreconfigureScript (exampleMake None (Some ''/w/pre.sh'') [] (Exited [] 0 None)) =
     [CheckFileExistsSync ''/w/pre.sh'',
      ShowErrorMessage ''Could not find pre-configure script.'',
      LogMessage (''Make sure a pre-configuration script path is defined with '' @
                  ''makefile.preconfigureScript and that it exists on disk.'')] \<and>
   spawned (runPreconfigureScript (exampleMake None None [] (Exited [] 0 None))) = [] \<and>
   spawned (runPreconfigureScript (exampleMake None (Some ''/w/pre.sh'') [] (Exited [] 0 None))) = []"
proof -
  let ?U = "exampleMake None None [] (Exited [] 0 None)"
  let ?A = "exampleMake None (Some ''/w/pre.sh'') [] (Exited [] 0 None)"
  have u: "preconfigureScript ?U = None" by (simp add: exampleMake_def)
  have a1: "preconfigureScript ?A = Some ''/w/pre.sh''" by (simp add: exampleMake_def)
  have a2: "\<not> fileExistsSync ?A ''/w/pre.sh''" by (simp add: exampleMake_def)
  have hu: "preconfigureScript ?U = None \<or> preconfigureScript ?U = Some [] \<or>
           (\<exists>s. preconfigureScript ?U = Some s \<and> \<not> fileExistsSync ?U s)"
    using u by simp
  have ha: "preconfigureScript ?A = None \<or> preconfigureScript ?A = Some [] \<or>
           (\<exists>s. preconfigureScript ?A = Some s \<and> \<not> fileExistsSync ?A s)"
    using a1 a2 by simp
  note ru = runPreconfigureScript_missing [OF hu]
  note ra = runPreconfigureScript_missing [OF ha]
  show ?thesis using ru ra u a1 a2 by simp
qed

end
